theory Spec2Isabelle
  imports Main "HOL-Library.Char_ord" "HOL-Library.List_Lexorder"
begin

section \<open>Exceptions as values\<close>

text \<open>
  Every exception the modelled code raises or lets through is a value of one datatype.
  \<open>InvalidDimensions\<close> and \<open>UnsupportedFormat\<close> are the classes of
  \<^verbatim>\<open>DataLib/exceptions.py\<close>; \<open>DoesNotExist\<close> and \<open>IntegrityError\<close> belong to
  the ORM; the \<open>yaml_\<close>, \<open>csv_\<close> and JSON classes belong to the parsing libraries; the
  others are Python built-ins. Only subclasses of \<^verbatim>\<open>Exception\<close> are represented.
\<close>

datatype error =
    ValueError string
  | TypeError
  | KeyError string
  | IndexError
  | AttributeError
  | RecursionError
  | JSONDecodeError
  | UnicodeDecodeError
  | csv_Error
  | yaml_ParserError
  | yaml_ReaderError
  | yaml_ScannerError
  | yaml_ComposerError
  | yaml_ConstructorError
  | DoesNotExist
  | IntegrityError
  | InvalidDimensions
  | UnsupportedFormat

section \<open>The DataTable container of the format classes\<close>

text \<open>
  Modelled from the spec: the DataTable container that the format classes of
  \<^verbatim>\<open>DataLib/formats\<close> operate on (its \<^verbatim>\<open>wipe\<close>, \<^verbatim>\<open>headers\<close>,
  \<^verbatim>\<open>width\<close>, \<^verbatim>\<open>append\<close>, \<^verbatim>\<open>dict\<close> and row \<^verbatim>\<open>tags\<close>) is not among
  the sources. The spec describes a table as an ordered collection of rows plus a declared
  column list (here the headers), and CSV import as padding short rows to the full width.
  A row carries its cells and its tags.
\<close>

record 'a Row =
  cells :: "'a list"
  tags :: "string list"

record 'a DataTable =
  title :: "string option"
  headers :: "string list option"
  data :: "'a Row list"

text \<open>
  Modelled from the spec: \<^verbatim>\<open>wipe\<close> removes all rows and the headers; the title stays.
\<close>

definition wipe :: "'a DataTable \<Rightarrow> 'a DataTable" where
  "wipe dset = dset\<lparr>data := [], headers := None\<rparr>"

text \<open>
  Modelled from the spec: the width of a table is the length of its first row and, while
  it has no row, the number of its headers (0 without headers).
\<close>

definition width :: "'a DataTable \<Rightarrow> nat" where
  "width dset =
     (case data dset of
        r # _ \<Rightarrow> length (cells r)
      | [] \<Rightarrow> (case headers dset of Some h \<Rightarrow> length h | None \<Rightarrow> 0))"

text \<open>
  Modelled from the spec: the container's check of a row (or a header list) before it is
  stored, which is not among the sources. A non-empty row fits a table whose width is 0
  or equal to the row's length.
\<close>

definition validate :: "'a DataTable \<Rightarrow> 'b list \<Rightarrow> bool" where
  "validate dset row =
     (if row \<noteq> [] then (if width dset \<noteq> 0 then length row = width dset else True)
      else True)"

text \<open>
  Modelled from the spec: assigning the \<^verbatim>\<open>headers\<close> of a table. Headers that do not
  fit are refused with \<open>InvalidDimensions\<close>, the "Invalid size" exception of
  \<^verbatim>\<open>DataLib/exceptions.py\<close>; an empty list of headers leaves the table without
  headers.
\<close>

definition set_headers :: "'a DataTable \<Rightarrow> string list \<Rightarrow> error + 'a DataTable" where
  "set_headers dset collection =
     (if validate dset collection
      then Inr (dset\<lparr>headers := (if collection \<noteq> [] then Some collection else None)\<rparr>)
      else Inl InvalidDimensions)"

text \<open>
  Modelled from the spec: \<^verbatim>\<open>append\<close> adds a row, without tags, at the end of the
  table; a row that does not fit is refused with \<open>InvalidDimensions\<close>.
\<close>

definition append_row :: "'a DataTable \<Rightarrow> 'a Row \<Rightarrow> error + 'a DataTable" where
  "append_row dset r =
     (if validate dset (cells r) then Inr (dset\<lparr>data := data dset @ [r]\<rparr>)
      else Inl InvalidDimensions)"

definition append :: "'a DataTable \<Rightarrow> 'a list \<Rightarrow> error + 'a DataTable" where
  "append dset row = append_row dset \<lparr>cells = row, tags = []\<rparr>"

text \<open>
  A Python dictionary is an association list in insertion order with distinct keys.
  \<open>dict_set\<close> is the assignment \<^verbatim>\<open>d[k] = v\<close>: an existing key keeps its place and
  takes the new value, a new key goes to the end. An \<^verbatim>\<open>OrderedDict\<close> built from a
  list of pairs assigns them in turn.
\<close>

fun dict_set :: "'k \<Rightarrow> 'v \<Rightarrow> ('k \<times> 'v) list \<Rightarrow> ('k \<times> 'v) list" where
  "dict_set k v [] = [(k, v)]"
| "dict_set k v ((k', v') # d) = (if k' = k then (k, v) # d else (k', v') # dict_set k v d)"

fun ordered_dict_from :: "('k \<times> 'v) list \<Rightarrow> ('k \<times> 'v) list \<Rightarrow> ('k \<times> 'v) list" where
  "ordered_dict_from acc [] = acc"
| "ordered_dict_from acc ((k, v) # kvs) = ordered_dict_from (dict_set k v acc) kvs"

definition ordered_dict :: "('k \<times> 'v) list \<Rightarrow> ('k \<times> 'v) list" where
  "ordered_dict kvs = ordered_dict_from [] kvs"

text \<open>
  Modelled from the spec: the \<^verbatim>\<open>dict\<close> view of a table is the list of its rows, each
  a mapping from header to cell when the table has headers and a plain list otherwise.
\<close>

datatype 'a packaged = Dicts "(string \<times> 'a) list list" | Lists "'a list list"

definition dict :: "'a DataTable \<Rightarrow> 'a packaged" where
  "dict dset =
     (case headers dset of
        Some h \<Rightarrow>
          (if h \<noteq> [] then Dicts (map (\<lambda>r. ordered_dict (zip h (cells r))) (data dset))
           else Lists (map cells (data dset)))
      | None \<Rightarrow> Lists (map cells (data dset)))"

section \<open>CSV import (\<^verbatim>\<open>DataLib/formats/_csv.py\<close>)\<close>

text \<open>
  The stream is read through \<^verbatim>\<open>csv.reader\<close>, a library; the model takes the records the
  reader yields, each a list of strings. The loop of \<^verbatim>\<open>CSVFormat.import_set\<close> runs
  over them with their index \<open>i\<close>; \<open>hdrs\<close> is its parameter \<^verbatim>\<open>headers\<close>.
\<close>

fun import_rows :: "bool \<Rightarrow> nat \<Rightarrow> string list list \<Rightarrow> string DataTable
    \<Rightarrow> error + string DataTable" where
  "import_rows hdrs i [] dset = Inr dset"
| "import_rows hdrs i (row # rows) dset =
     (if i = 0 \<and> hdrs then
        (case set_headers dset row of
           Inl e \<Rightarrow> Inl e
         | Inr dset' \<Rightarrow> import_rows hdrs (Suc i) rows dset')
      else if row \<noteq> [] then
        (let row' = (if i > 0 \<and> length row < width dset
                     then row @ replicate (width dset - length row) []
                     else row)
         in case append dset row' of
              Inl e \<Rightarrow> Inl e
            | Inr dset' \<Rightarrow> import_rows hdrs (Suc i) rows dset')
      else import_rows hdrs (Suc i) rows dset)"

definition CSVFormat_import_set :: "string DataTable \<Rightarrow> string list list \<Rightarrow> bool
    \<Rightarrow> error + string DataTable" where
  "CSVFormat_import_set dset in_stream hdrs = import_rows hdrs 0 in_stream (wipe dset)"


section \<open>JSON and YAML import (\<^verbatim>\<open>_json.py\<close>, \<^verbatim>\<open>_yaml.py\<close>)\<close>

text \<open>
  A parsed JSON or YAML document, as \<^verbatim>\<open>json.load\<close> and \<^verbatim>\<open>yaml.safe_load\<close> return
  it. Floating-point numbers are not represented, and mapping keys are strings.
\<close>

datatype "value" =
    VNone
  | VBool bool
  | VInt int
  | VStr string
  | VList "value list"
  | VDict "(string \<times> value) list"

text \<open>
  Modelled from the spec: assigning a parsed document to the \<^verbatim>\<open>dict\<close> attribute of a
  DataTable is not among the sources. The spec describes a JSON document as an array of row
  objects: the table is wiped, the keys of the first object become the headers and every
  object contributes its values as a row. An array that starts with an array is taken as
  a list of rows without headers. An empty document changes nothing. Any other document
  is refused: with \<open>UnsupportedFormat\<close> (the "Format is not supported" exception of
  \<^verbatim>\<open>DataLib/exceptions.py\<close>) when its first element is neither an array nor an object,
  and with the error Python raises when the document has no length, has no element
  \<open>0\<close>, or holds a row that is not of the kind of the first one.
\<close>

fun row_of_list :: "value \<Rightarrow> error + value list" where
  "row_of_list (VList xs) = Inr xs"
| "row_of_list (VDict kvs) = Inr (map (\<lambda>kv. VStr (fst kv)) kvs)"
| "row_of_list (VStr s) = Inr (map (\<lambda>c. VStr [c]) s)"
| "row_of_list _ = Inl TypeError"

fun row_of_object :: "value \<Rightarrow> error + value list" where
  "row_of_object (VDict kvs) = Inr (map snd kvs)"
| "row_of_object _ = Inl AttributeError"

fun append_all :: "(value \<Rightarrow> error + value list) \<Rightarrow> value list \<Rightarrow> value DataTable
    \<Rightarrow> error + value DataTable" where
  "append_all conv [] dset = Inr dset"
| "append_all conv (x # xs) dset =
     (case conv x of
        Inl e \<Rightarrow> Inl e
      | Inr row \<Rightarrow>
          (case append dset row of
             Inl e \<Rightarrow> Inl e
           | Inr dset' \<Rightarrow> append_all conv xs dset'))"

fun set_dict :: "value DataTable \<Rightarrow> value \<Rightarrow> error + value DataTable" where
  "set_dict dset (VList []) = Inr dset"
| "set_dict dset (VList (VList r # rest)) =
     append_all row_of_list (VList r # rest) (wipe dset)"
| "set_dict dset (VList (VDict kvs # rest)) =
     (case set_headers (wipe dset) (map fst kvs) of
        Inl e \<Rightarrow> Inl e
      | Inr dset' \<Rightarrow> append_all row_of_object (VDict kvs # rest) dset')"
| "set_dict dset (VList (_ # rest)) = Inl UnsupportedFormat"
| "set_dict dset (VStr s) = (if s = [] then Inr dset else Inl UnsupportedFormat)"
| "set_dict dset (VDict kvs) = (if kvs = [] then Inr dset else Inl (KeyError ''0''))"
| "set_dict dset _ = Inl TypeError"

text \<open>
  \<^verbatim>\<open>JSONFormat.import_set\<close> and \<^verbatim>\<open>YAMLFormat.import_set\<close>: wipe, then assign what
  the parser returns. The parser is a library and a parameter of the model; an exception
  it raises goes through.
\<close>

definition JSONFormat_import_set :: "(string \<Rightarrow> error + value) \<Rightarrow> value DataTable \<Rightarrow> string
    \<Rightarrow> error + value DataTable" where
  "JSONFormat_import_set json_load dset in_stream =
     (let dset' = wipe dset
      in case json_load in_stream of Inl e \<Rightarrow> Inl e | Inr v \<Rightarrow> set_dict dset' v)"


section \<open>Format detection\<close>

text \<open>
  An \<^verbatim>\<open>except\<close> clause catches an exception of the named class or of a subclass.
  \<^verbatim>\<open>JSONDecodeError\<close> and \<^verbatim>\<open>UnicodeDecodeError\<close> are subclasses of
  \<^verbatim>\<open>ValueError\<close>; none of the YAML error classes is a subclass of another one here.
\<close>

fun is_ValueError :: "error \<Rightarrow> bool" where
  "is_ValueError (ValueError _) = True"
| "is_ValueError JSONDecodeError = True"
| "is_ValueError UnicodeDecodeError = True"
| "is_ValueError _ = False"

fun is_TypeError :: "error \<Rightarrow> bool" where
  "is_TypeError TypeError = True"
| "is_TypeError _ = False"

definition DEFAULT_DELIMITER :: string where
  "DEFAULT_DELIMITER = '',''"

text \<open>
  \<^verbatim>\<open>CSVFormat.detect\<close>: the sniffer of the \<^verbatim>\<open>csv\<close> library is a parameter; it gets the
  first 1024 characters of the stream and the delimiters (\<^verbatim>\<open>delimiter or ','\<close>). Every
  \<^verbatim>\<open>Exception\<close> is caught.
\<close>

definition CSVFormat_detect :: "(string \<Rightarrow> string \<Rightarrow> error + 'd) \<Rightarrow> string \<Rightarrow> string option
    \<Rightarrow> error + bool" where
  "CSVFormat_detect sniff stream delimiter =
     (case sniff (take 1024 stream)
             (case delimiter of
                Some d \<Rightarrow> (if d \<noteq> [] then d else DEFAULT_DELIMITER)
              | None \<Rightarrow> DEFAULT_DELIMITER) of
        Inr _ \<Rightarrow> Inr True
      | Inl _ \<Rightarrow> Inr False)"

text \<open>\<^verbatim>\<open>JSONFormat.detect\<close>: only \<^verbatim>\<open>TypeError\<close> and \<^verbatim>\<open>ValueError\<close> are caught.\<close>

definition JSONFormat_detect :: "(string \<Rightarrow> error + value) \<Rightarrow> string \<Rightarrow> error + bool" where
  "JSONFormat_detect json_load stream =
     (case json_load stream of
        Inr _ \<Rightarrow> Inr True
      | Inl e \<Rightarrow> (if is_TypeError e \<or> is_ValueError e then Inr False else Inl e))"

text \<open>
  \<^verbatim>\<open>YAMLFormat.detect\<close>: a document is accepted when it is a list or a mapping; only
  the parser's, the reader's and the scanner's errors are caught.
\<close>

fun is_collection :: "value \<Rightarrow> bool" where
  "is_collection (VList _) = True"
| "is_collection (VDict _) = True"
| "is_collection _ = False"

definition YAMLFormat_detect :: "(string \<Rightarrow> error + value) \<Rightarrow> string \<Rightarrow> error + bool" where
  "YAMLFormat_detect safe_load stream =
     (case safe_load stream of
        Inr yaml \<Rightarrow> (if is_collection yaml then Inr True else Inr False)
      | Inl e \<Rightarrow>
          (if e = yaml_ParserError \<or> e = yaml_ReaderError \<or> e = yaml_ScannerError
           then Inr False else Inl e))"

section \<open>XML export (\<^verbatim>\<open>_xml.py\<close>)\<close>

text \<open>
  An element of \<^verbatim>\<open>xml.etree.ElementTree\<close>: tag, attributes, text and children.
  The model of the export returns the tree of the root element, which \<^verbatim>\<open>ET.tostring\<close>
  then writes out. Python's \<^verbatim>\<open>str\<close> on a cell is a parameter. \<open>join\<close> is
  \<^verbatim>\<open>sep.join(items)\<close>.
\<close>

datatype xml = Element string "(string \<times> string) list" "string option" "xml list"

fun join :: "string \<Rightarrow> string list \<Rightarrow> string" where
  "join sep [] = []"
| "join sep [x] = x"
| "join sep (x # y # ys) = x @ sep @ join sep (y # ys)"

definition row_node :: "('a \<Rightarrow> string) \<Rightarrow> 'a Row \<Rightarrow> (string \<times> 'a) list \<Rightarrow> xml" where
  "row_node str r row =
     Element ''row''
       (if tags r \<noteq> [] then [(''tags'', join '','' (tags r))] else [])
       None
       (map (\<lambda>(header, v). Element header [] (Some (str v)) []) row)"

text \<open>
  The rows of the \<^verbatim>\<open>dict\<close> view are walked together with the stored rows, which carry
  the tags. A row that is a plain list has no \<^verbatim>\<open>items\<close>: the loop raises on the first
  one.
\<close>

definition XMLFormat_export_set :: "('a \<Rightarrow> string) \<Rightarrow> 'a DataTable \<Rightarrow> error + xml" where
  "XMLFormat_export_set str dset =
     (case dict dset of
        Dicts rows \<Rightarrow>
          Inr (Element ''DataTable'' [] None
                 (map (\<lambda>(r, row). row_node str r row) (zip (data dset) rows)))
      | Lists rows \<Rightarrow>
          (if rows = [] then Inr (Element ''DataTable'' [] None [])
           else Inl AttributeError))"

section \<open>LaTeX export (\<^verbatim>\<open>_latex.py\<close>)\<close>

text \<open>The backslash and the newline character.\<close>

definition bs :: string where
  "bs = [CHR 0x5C]"


definition TEX_RESERVED_SYMBOLS_MAP :: "(string \<times> string) list" where
  "TEX_RESERVED_SYMBOLS_MAP =
     [(bs, bs @ ''textbackslash{}''),
      (''{'', bs @ ''{''),
      (''}'', bs @ ''}''),
      (''$'', bs @ ''$''),
      (''&'', bs @ ''&''),
      (''#'', bs @ ''#''),
      (''^'', bs @ ''textasciicircum{}''),
      (''_'', bs @ ''_''),
      (''~'', bs @ ''textasciitilde{}''),
      (''%'', bs @ ''%'')]"

text \<open>
  \<^verbatim>\<open>TEX_RESERVED_SYMBOLS_RE\<close> is the alternation of the escaped keys of the map, and
  \<^verbatim>\<open>sub\<close> replaces its matches from left to right: at each position the first
  alternative that the rest of the input starts with matches, its replacement is emitted
  and the scan goes on behind the match; where none matches the character is kept.
  The alternatives are not empty.
\<close>

fun startswith :: "string \<Rightarrow> string \<Rightarrow> bool" where
  "startswith s [] = True"
| "startswith [] (k # ks) = False"
| "startswith (c # cs) (k # ks) = (c = k \<and> startswith cs ks)"

fun match_alternatives :: "string list \<Rightarrow> string \<Rightarrow> string option" where
  "match_alternatives [] s = None"
| "match_alternatives (k # ks) s =
     (if startswith s k then Some k else match_alternatives ks s)"

fun re_sub :: "(string \<times> string) list \<Rightarrow> nat \<Rightarrow> string \<Rightarrow> string" where
  "re_sub m skip [] = []"
| "re_sub m (Suc skip) (c # cs) = re_sub m skip cs"
| "re_sub m 0 (c # cs) =
     (case match_alternatives (map fst m) (c # cs) of
        Some k \<Rightarrow>
          (case map_of m k of Some r \<Rightarrow> r | None \<Rightarrow> []) @ re_sub m (length k - 1) cs
      | None \<Rightarrow> c # re_sub m 0 cs)"

definition escape_tex_reserved_symbols :: "string \<Rightarrow> string" where
  "escape_tex_reserved_symbols input = re_sub TEX_RESERVED_SYMBOLS_MAP 0 input"

text \<open>
  \<^verbatim>\<open>_serialize_row\<close>: an item that Python takes for false gives the empty string, any
  other item its escaped text. Python's \<^verbatim>\<open>str\<close> and truth value of a cell are
  parameters.
\<close>

definition serialize_row :: "('a \<Rightarrow> string) \<Rightarrow> ('a \<Rightarrow> bool) \<Rightarrow> 'a list \<Rightarrow> string" where
  "serialize_row str truthy row =
     replicate 6 CHR '' '' @
     join '' & '' (map (\<lambda>item. if truthy item then escape_tex_reserved_symbols (str item)
                                else []) row) @
     '' '' @ bs @ bs"









section \<open>Tables over the ORM (\<^verbatim>\<open>DataSet/dataset.py\<close>)\<close>

text \<open>
  A row of a table, and a Python dictionary of keyword arguments, is an association list
  from column name to value. The ORM and the database are libraries: a model class is
  represented by the list of its fields in declaration order, the name of its primary key
  and the rows the database holds for it, each row with one entry per field
  (\<open>model_fields\<close> stands for \<^verbatim>\<open>model_class._meta.fields\<close>). The ORM's
  conversions of a value for a field (\<^verbatim>\<open>db_value\<close> on the way in,
  \<^verbatim>\<open>python_value\<close> on the way out) are parameters and may raise.
\<close>

type_synonym row = "(string \<times> value) list"

datatype field_type =
    TextField | DateTimeField | BooleanField | IntegerField | FloatField | DecimalField
  | AutoField

record Table =
  name :: string
  model_fields :: "(string \<times> field_type) list"
  primary_key :: string
  rows :: "row list"

record orm =
  db_value :: "field_type \<Rightarrow> value \<Rightarrow> error + value"
  python_value :: "field_type \<Rightarrow> value \<Rightarrow> error + value"

text \<open>
  \<^verbatim>\<open>Table._guess_field_type\<close>, on the values that are represented (dates, floats and
  decimals are not).
\<close>

fun guess_field_type :: "value \<Rightarrow> field_type" where
  "guess_field_type (VStr _) = TextField"
| "guess_field_type (VBool _) = BooleanField"
| "guess_field_type (VInt _) = IntegerField"
| "guess_field_type _ = TextField"

definition columns :: "Table \<Rightarrow> string list" where
  "columns t = map fst (model_fields t)"

text \<open>
  The migrator's \<^verbatim>\<open>add_column\<close> with a field declared \<^verbatim>\<open>null=True\<close>: the field is
  declared last and every stored row shows it as null.
\<close>

definition add_column :: "Table \<Rightarrow> string \<Rightarrow> field_type \<Rightarrow> Table" where
  "add_column t key field_kind =
     t\<lparr>model_fields := model_fields t @ [(key, field_kind)],
       rows := map (\<lambda>r. r @ [(key, VNone)]) (rows t)\<rparr>"

text \<open>
  \<^verbatim>\<open>Table._migrate_new_columns\<close>. \<^verbatim>\<open>new_keys\<close> is a Python set, whose iteration
  order is not specified; the model walks it in the order of the data's keys.
\<close>

definition new_keys :: "Table \<Rightarrow> row \<Rightarrow> string list" where
  "new_keys t data_row = filter (\<lambda>k. k \<notin> set (map fst (model_fields t))) (remdups (map fst data_row))"

fun add_columns :: "Table \<Rightarrow> row \<Rightarrow> string list \<Rightarrow> Table" where
  "add_columns t data_row [] = t"
| "add_columns t data_row (key # keys) =
     add_columns
       (add_column t key (guess_field_type (case map_of data_row key of Some v \<Rightarrow> v | None \<Rightarrow> VNone)))
       data_row keys"

definition migrate_new_columns :: "Table \<Rightarrow> row \<Rightarrow> Table" where
  "migrate_new_columns t data_row =
     (if new_keys t data_row \<noteq> [] then add_columns t data_row (new_keys t data_row) else t)"

text \<open>
  The ORM's \<^verbatim>\<open>insert(**data).execute()\<close>: every value is converted for its field; the
  primary key is the one given or, when none is given, one more than the largest integer
  key stored; a key that is already stored is refused with \<open>IntegrityError\<close>. The new row
  shows null for every field without a value. The result is the key of the new row.
\<close>

fun convert_all :: "orm \<Rightarrow> Table \<Rightarrow> row \<Rightarrow> error + row" where
  "convert_all ad t [] = Inr []"
| "convert_all ad t ((k, v) # kvs) =
     (case map_of (model_fields t) k of
        None \<Rightarrow> Inl (AttributeError)
      | Some ft \<Rightarrow>
          (case db_value ad ft v of
             Inl e \<Rightarrow> Inl e
           | Inr v' \<Rightarrow>
               (case convert_all ad t kvs of
                  Inl e \<Rightarrow> Inl e
                | Inr kvs' \<Rightarrow> Inr ((k, v') # kvs'))))"

fun int_keys :: "string \<Rightarrow> row list \<Rightarrow> int list" where
  "int_keys pk [] = []"
| "int_keys pk (r # rs) =
     (case map_of r pk of Some (VInt i) \<Rightarrow> i # int_keys pk rs | _ \<Rightarrow> int_keys pk rs)"

definition next_key :: "Table \<Rightarrow> value" where
  "next_key t = VInt (fold max (int_keys (primary_key t) (rows t)) 0 + 1)"

definition model_insert :: "orm \<Rightarrow> Table \<Rightarrow> row \<Rightarrow> (error + value) \<times> Table" where
  "model_insert ad t data_row =
     (case convert_all ad t data_row of
        Inl e \<Rightarrow> (Inl e, t)
      | Inr converted \<Rightarrow>
          (let key = (case map_of converted (primary_key t) of
                        Some v \<Rightarrow> (if v = VNone then next_key t else v)
                      | None \<Rightarrow> next_key t)
           in if key \<in> set (map (\<lambda>r. case map_of r (primary_key t) of Some v \<Rightarrow> v | None \<Rightarrow> VNone)
                                (rows t))
              then (Inl IntegrityError, t)
              else (Inr key,
                    t\<lparr>rows := rows t @
                       [map (\<lambda>(c, ft). (c, if c = primary_key t then key
                                            else (case map_of converted c of
                                                    Some v \<Rightarrow> v | None \<Rightarrow> VNone)))
                            (model_fields t)]\<rparr>)))"

text \<open>
  A method that takes \<^verbatim>\<open>**data\<close> beside \<^verbatim>\<open>self\<close> cannot be given a keyword named
  \<^verbatim>\<open>self\<close>: Python refuses the call with a \<^verbatim>\<open>TypeError\<close>.
\<close>

definition bind_kwargs :: "row \<Rightarrow> error + row" where
  "bind_kwargs kwargs = (if ''self'' \<in> set (map fst kwargs) then Inl TypeError else Inr kwargs)"

text \<open>\<^verbatim>\<open>Table.insert\<close>: migrate, then insert. The table is returned in every case.\<close>

definition Table_insert :: "orm \<Rightarrow> Table \<Rightarrow> row \<Rightarrow> (error + value) \<times> Table" where
  "Table_insert ad t kwargs =
     (case bind_kwargs kwargs of
        Inl e \<Rightarrow> (Inl e, t)
      | Inr data_row \<Rightarrow> model_insert ad (migrate_new_columns t data_row) data_row)"

text \<open>
  \<^verbatim>\<open>Table._apply_where\<close>: each filter looks its column up among the fields, which raises
  \<^verbatim>\<open>KeyError\<close> for a column that is not declared; the expressions are joined by
  \<^verbatim>\<open>and\<close>, and a row is selected when every filter column has the expected value.
\<close>

fun check_filters :: "Table \<Rightarrow> row \<Rightarrow> error + unit" where
  "check_filters t [] = Inr ()"
| "check_filters t ((column, v) # filters) =
     (if column \<in> set (map fst (model_fields t)) then check_filters t filters
      else Inl (KeyError column))"

definition matches :: "row \<Rightarrow> row \<Rightarrow> bool" where
  "matches filters r = list_all (\<lambda>(column, v). map_of r column = Some v) filters"

definition apply_where :: "Table \<Rightarrow> row list \<Rightarrow> row \<Rightarrow> error + row list" where
  "apply_where t query filters =
     (if filters \<noteq> [] then
        (case check_filters t filters of
           Inl e \<Rightarrow> Inl e
         | Inr _ \<Rightarrow> Inr (filter (matches filters) query))
      else Inr query)"

definition Table_find :: "Table \<Rightarrow> row \<Rightarrow> error + row list" where
  "Table_find t kwargs =
     (case bind_kwargs kwargs of
        Inl e \<Rightarrow> Inl e
      | Inr query \<Rightarrow> apply_where t (rows t) query)"





definition Table_all :: "Table \<Rightarrow> error + row list" where
  "Table_all t = Table_find t []"


section \<open>Importers (\<^verbatim>\<open>DataSet/dataset.py\<close>)\<close>











section \<open>Export through the DataSet (\<^verbatim>\<open>DataSet/dataset.py\<close>)\<close>

text \<open>
  A DataSet holds the models of its tables and its export formats, a dictionary from
  format name to exporter. An exporter turns the rows of a query into the text it writes
  to the file object, or raises; the file itself is outside the model.
\<close>

type_synonym exporter = "row list \<Rightarrow> error + string"

record DataSet =
  models :: "(string \<times> Table) list"
  export_formats :: "(string \<times> exporter) list"

definition get_export_formats :: "exporter \<Rightarrow> exporter \<Rightarrow> exporter \<Rightarrow> (string \<times> exporter) list" where
  "get_export_formats CSVExporter JSONExporter TSVExporter =
     [(''csv'', CSVExporter), (''json'', JSONExporter), (''tsv'', TSVExporter)]"

text \<open>
  \<^verbatim>\<open>DataSet._check_arguments\<close>. A file name counts when it is not empty, a file object
  whenever it is given. The third message names the format between double quotes and the
  sorted names of the known formats.
\<close>

definition has_filename :: "string option \<Rightarrow> bool" where
  "has_filename filename = (case filename of Some f \<Rightarrow> f \<noteq> [] | None \<Rightarrow> False)"

definition has_file_obj :: "'f option \<Rightarrow> bool" where
  "has_file_obj file_obj = (case file_obj of Some _ \<Rightarrow> True | None \<Rightarrow> False)"

definition unsupported_format_message :: "string \<Rightarrow> string list \<Rightarrow> string" where
  "unsupported_format_message fmt known =
     ''Unsupported format '' @ [CHR 0x22] @ fmt @ [CHR 0x22] @ ''. Use one of '' @
     join '', '' (sort known) @ ''.''"

definition check_arguments :: "string option \<Rightarrow> 'f option \<Rightarrow> string \<Rightarrow> (string \<times> 'e) list
    \<Rightarrow> error + unit" where
  "check_arguments filename file_obj fmt format_dict =
     (if has_filename filename \<and> has_file_obj file_obj then
        Inl (ValueError (''file is over-specified. Please use either '' @
                         ''filename or file_obj, but not both.''))
      else if \<not> has_filename filename \<and> \<not> has_file_obj file_obj then
        Inl (ValueError (''A filename or file-like object must be '' @ ''specified.''))
      else if fmt \<notin> set (map fst format_dict) then
        Inl (ValueError (unsupported_format_message fmt (map fst format_dict)))
      else Inr ())"

text \<open>
  \<^verbatim>\<open>DataSet.freeze\<close>: check the arguments, then hand the query's rows to the exporter
  of the format. The DataSet is returned beside the result.
\<close>

definition DataSet_freeze :: "DataSet \<Rightarrow> row list \<Rightarrow> string \<Rightarrow> string option \<Rightarrow> 'f option
    \<Rightarrow> (error + string) \<times> DataSet" where
  "DataSet_freeze ds query fmt filename file_obj =
     (case check_arguments filename file_obj fmt (export_formats ds) of
        Inl e \<Rightarrow> (Inl e, ds)
      | Inr _ \<Rightarrow>
          (case map_of (export_formats ds) fmt of
             None \<Rightarrow> (Inl (KeyError fmt), ds)
           | Some exporter \<Rightarrow> (exporter query, ds)))"

text \<open>\<^verbatim>\<open>Table.freeze\<close> exports all rows of the table with the given name.\<close>

definition Table_freeze :: "DataSet \<Rightarrow> string \<Rightarrow> string \<Rightarrow> string option \<Rightarrow> 'f option
    \<Rightarrow> (error + string) \<times> DataSet" where
  "Table_freeze ds table_name fmt filename file_obj =
     (case map_of (models ds) table_name of
        None \<Rightarrow> (Inl (KeyError table_name), ds)
      | Some t \<Rightarrow>
          (case Table_all t of
             Inl e \<Rightarrow> (Inl e, ds)
           | Inr query \<Rightarrow> DataSet_freeze ds query fmt filename file_obj))"


section \<open>What a table holds\<close>


section \<open>Escaped text\<close>

text \<open>
  The escaped form of a character is its entry in \<^verbatim>\<open>TEX_RESERVED_SYMBOLS_MAP\<close>; a
  character without an entry stands for itself. The text a cell contributes to a
  serialized row is the escaped text of a true item and nothing for a false one.
\<close>

definition escaped_form :: "char \<Rightarrow> string" where
  "escaped_form c = (case map_of TEX_RESERVED_SYMBOLS_MAP [c] of Some r \<Rightarrow> r | None \<Rightarrow> [c])"

definition escaped_cell :: "('a \<Rightarrow> string) \<Rightarrow> ('a \<Rightarrow> bool) \<Rightarrow> 'a \<Rightarrow> string" where
  "escaped_cell str truthy item = (if truthy item then concat (map escaped_form (str item)) else [])"

section \<open>Reading an element\<close>

text \<open>The tag of an element.\<close>

definition root_tag :: "xml \<Rightarrow> string" where
  "root_tag x = (case x of Element tag _ _ _ \<Rightarrow> tag)"

section \<open>An example database\<close>

text \<open>
  A table \<open>users\<close> with the primary key \<open>id\<close>, a column \<open>name\<close> and one row, in a
  DataSet with the three export formats of \<^verbatim>\<open>get_export_formats\<close>.
\<close>

definition users :: Table where
  "users = \<lparr>name = ''users'',
            model_fields = [(''id'', AutoField), (''name'', TextField)],
            primary_key = ''id'',
            rows = [[(''id'', VInt 1), (''name'', VStr ''Jeff'')]]\<rparr>"

definition users_db :: DataSet where
  "users_db = \<lparr>models = [(''users'', users)],
               export_formats = get_export_formats (\<lambda>q. Inr ''csv'') (\<lambda>q. Inr ''json'') (\<lambda>q. Inr ''tsv'')\<rparr>"

text \<open>An ORM whose conversions keep every value as it is.\<close>

definition plain_orm :: orm where
  "plain_orm = \<lparr>db_value = (\<lambda>ft v. Inr v), python_value = (\<lambda>ft v. Inr v)\<rparr>"


section \<open>Properties of the format classes\<close>

subsection \<open>CSV import\<close>

lemma import_rows_padded:
  assumes "0 < w" "width d = w" "\<forall>r\<in>set recs. length r \<le> w"
  shows "import_rows True (Suc i) recs d =
         Inr (d\<lparr>data := data d @ map (\<lambda>r. \<lparr>cells = r @ replicate (w - length r) [], tags = []\<rparr>)
                                      (filter (\<lambda>r. r \<noteq> []) recs)\<rparr>)"
  using assms
proof (induction recs arbitrary: d i)
  case Nil
  then show ?case by simp
next
  case (Cons r recs)
  show ?case
  proof (cases "r = []")
    case True
    with Cons show ?thesis by simp
  next
    case False
    let ?r' = "r @ replicate (w - length r) []"
    let ?d' = "d\<lparr>data := data d @ [\<lparr>cells = ?r', tags = []\<rparr>]\<rparr>"
    have len: "length ?r' = w" using Cons.prems by simp
    have w': "width ?d' = w"
      using Cons.prems len by (cases "data d") (simp_all add: width_def)
    have app: "append d ?r' = Inr ?d'"
      using Cons.prems len False by (simp add: append_def append_row_def validate_def)
    have row': "(if 0 < Suc i \<and> length r < width d then r @ replicate (width d - length r) [] else r) = ?r'"
      using Cons.prems by (cases "length r < w") simp_all
    have "import_rows True (Suc i) (r # recs) d = import_rows True (Suc (Suc i)) recs ?d'"
      using False app row' by (simp add: Let_def)
    also have "\<dots> = Inr (?d'\<lparr>data := data ?d' @ map (\<lambda>r. \<lparr>cells = r @ replicate (w - length r) [], tags = []\<rparr>) (filter (\<lambda>r. r \<noteq> []) recs)\<rparr>)"
      using Cons.IH[OF Cons.prems(1) w'] Cons.prems(3) by simp
    finally show ?thesis using False by simp
  qed
qed

lemma import_rows_blank:
  "\<forall>r\<in>set recs. r = [] \<Longrightarrow> import_rows True (Suc i) recs d = Inr d"
  by (induction recs arbitrary: i) simp_all

text \<open>
  Claim C1. With a header row \<open>h\<close> first, \<^verbatim>\<open>CSVFormat.import_set\<close> stores every
  non-empty data record padded with empty strings to the width of the header, and skips
  empty records; the table then has the header as its headers. This is shown for the
  inputs whose records are not longer than the header: a longer record does not fit the
  container and ends the import with \<open>InvalidDimensions\<close> (lemma
  \<open>csv_import_long_row_refused\<close> below). For the header \<open>[a,b,c]\<close> and the record
  \<open>[1,2]\<close> the row read back through \<^verbatim>\<open>dict\<close> is \<open>{a:1, b:2, c:''}\<close>.
\<close>

theorem csv_import_pads_short_rows:
  assumes "\<forall>r\<in>set recs. length r \<le> length h"
  shows "CSVFormat_import_set dset (h # recs) True =
         Inr (dset\<lparr>headers := (if h \<noteq> [] then Some h else None),
                   data := map (\<lambda>r. \<lparr>cells = r @ replicate (length h - length r) [], tags = []\<rparr>)
                               (filter (\<lambda>r. r \<noteq> []) recs)\<rparr>)"
proof (cases "h = []")
  case True
  with assms have blank: "\<forall>r\<in>set recs. r = []" by simp
  then have "filter (\<lambda>r. r \<noteq> []) recs = []" by (simp add: filter_empty_conv)
  with True blank show ?thesis
    by (simp add: CSVFormat_import_set_def set_headers_def validate_def wipe_def
        import_rows_blank)
next
  case False
  let ?d = "(wipe dset)\<lparr>headers := Some h\<rparr>"
  have hd: "set_headers (wipe dset) h = Inr ?d"
    using False by (simp add: set_headers_def validate_def wipe_def width_def)
  have w: "width ?d = length h" by (simp add: width_def wipe_def)
  have "CSVFormat_import_set dset (h # recs) True = import_rows True (Suc 0) recs ?d"
    using hd by (simp add: CSVFormat_import_set_def)
  also have "\<dots> = Inr (?d\<lparr>data := data ?d @ map (\<lambda>r. \<lparr>cells = r @ replicate (length h - length r) [], tags = []\<rparr>)
                                      (filter (\<lambda>r. r \<noteq> []) recs)\<rparr>)"
    using import_rows_padded[OF _ w assms] False by simp
  finally show ?thesis using False by (simp add: wipe_def)
qed

text \<open>The example of the spec, through claim C1's theorem.\<close>

theorem csv_import_pads_short_rows_witness:
  "map_sum id dict
     (CSVFormat_import_set \<lparr>title = None, headers = None, data = []\<rparr>
        [[''a'', ''b'', ''c''], [''1'', ''2'']] True) =
   Inr (Dicts [[(''a'', ''1''), (''b'', ''2''), (''c'', '''')]])"
  using csv_import_pads_short_rows
    [of "[[''1'', ''2'']]" "[''a'', ''b'', ''c'']" "\<lparr>title = None, headers = None, data = []\<rparr>"]
  by (simp add: dict_def ordered_dict_def)

lemma csv_import_long_row_refused:
  "CSVFormat_import_set \<lparr>title = None, headers = None, data = []\<rparr>
     [[''a'', ''b'', ''c''], [''1'', ''2'', ''3'', ''4''], [''1'', ''2'']] True =
   Inl InvalidDimensions"
  by (simp add: CSVFormat_import_set_def wipe_def set_headers_def validate_def width_def
      append_def append_row_def)

subsection \<open>Import replaces the content of the target\<close>


lemma width_title [simp]: "width (dset\<lparr>title := x\<rparr>) = width dset"
  by (simp add: width_def split: list.splits)

lemma validate_title [simp]: "validate (dset\<lparr>title := x\<rparr>) row = validate dset row"
  by (simp add: validate_def)





lemma wipe_title_update [simp]: "wipe (dset\<lparr>title := x\<rparr>) = (wipe dset)\<lparr>title := x\<rparr>"
  by (simp add: wipe_def)









text \<open>
  Two imports into a table that holds a header and a row: what the table held is gone.
  The JSON parser here returns an array of two objects; the CSV reader yields a header, a
  record, an empty record and a short record.
\<close>

lemma json_import_example:
  "JSONFormat_import_set
     (\<lambda>s. Inr (VList [VDict [(''a'', VInt 1), (''b'', VInt 2)], VDict [(''a'', VInt 3), (''b'', VInt 4)]]))
     \<lparr>title = Some ''old'', headers = Some [''x''], data = [\<lparr>cells = [VInt 0], tags = []\<rparr>]\<rparr>
     in_stream =
   Inr \<lparr>title = Some ''old'', headers = Some [''a'', ''b''],
        data = [\<lparr>cells = [VInt 1, VInt 2], tags = []\<rparr>, \<lparr>cells = [VInt 3, VInt 4], tags = []\<rparr>]\<rparr>"
  by (simp add: JSONFormat_import_set_def wipe_def set_headers_def validate_def width_def
      append_def append_row_def)

lemma csv_import_example:
  "CSVFormat_import_set
     \<lparr>title = Some ''old'', headers = Some [''x''], data = [\<lparr>cells = [''0''], tags = []\<rparr>]\<rparr>
     [[''a'', ''b''], [''1'', ''2''], [], [''3'']] True =
   Inr \<lparr>title = Some ''old'', headers = Some [''a'', ''b''],
        data = [\<lparr>cells = [''1'', ''2''], tags = []\<rparr>, \<lparr>cells = [''3'', ''''], tags = []\<rparr>]\<rparr>"
  by (simp add: CSVFormat_import_set_def wipe_def set_headers_def validate_def width_def
      append_def append_row_def)

subsection \<open>LaTeX export\<close>

lemma re_sub_tex:
  "re_sub TEX_RESERVED_SYMBOLS_MAP 0 s = concat (map escaped_form s)"
  by (induction s) (simp_all add: TEX_RESERVED_SYMBOLS_MAP_def bs_def escaped_form_def)

lemma escape_tex_concat:
  "escape_tex_reserved_symbols s = concat (map escaped_form s)"
  by (simp add: escape_tex_reserved_symbols_def re_sub_tex)


lemma serialize_row_escaped:
  "serialize_row str truthy row =
     replicate 6 CHR '' '' @ join '' & '' (map (escaped_cell str truthy) row) @ '' '' @ bs @ bs"
proof -
  have "(\<lambda>item. if truthy item then escape_tex_reserved_symbols (str item) else []) =
        escaped_cell str truthy"
    by (rule ext) (simp add: escaped_cell_def escape_tex_concat)
  then show ?thesis by (simp add: serialize_row_def)
qed


text \<open>A row with reserved characters and an empty cell.\<close>

lemma latex_example:
  "serialize_row (\<lambda>s. s) (\<lambda>s. s \<noteq> []) [''50%'', ''a_b'', '''', ''x&y''] =
   ''      50'' @ bs @ ''% & a'' @ bs @ ''_b &  & x'' @ bs @ ''&y '' @ bs @ bs"
  by (simp add: serialize_row_escaped escaped_cell_def escaped_form_def
      TEX_RESERVED_SYMBOLS_MAP_def bs_def eval_nat_numeral)

subsection \<open>XML export\<close>

lemma dict_set_fresh:
  "k \<notin> set (map fst d) \<Longrightarrow> dict_set k v d = d @ [(k, v)]"
  by (induction d) auto

lemma ordered_dict_from_distinct:
  "distinct (map fst kvs) \<Longrightarrow> set (map fst acc) \<inter> set (map fst kvs) = {} \<Longrightarrow>
   ordered_dict_from acc kvs = acc @ kvs"
proof (induction kvs arbitrary: acc)
  case Nil
  then show ?case by simp
next
  case (Cons kv kvs)
  obtain k v where kv: "kv = (k, v)" by (cases kv)
  from Cons.prems kv have fresh: "k \<notin> set (map fst acc)" by auto
  from Cons.prems kv have "set (map fst (acc @ [(k, v)])) \<inter> set (map fst kvs) = {}" by auto
  with Cons.IH[of "acc @ [(k, v)]"] Cons.prems kv fresh show ?case
    by (simp add: dict_set_fresh)
qed

lemma ordered_dict_distinct:
  "distinct (map fst kvs) \<Longrightarrow> ordered_dict kvs = kvs"
  by (simp add: ordered_dict_def ordered_dict_from_distinct)

lemma ordered_dict_zip:
  "distinct h \<Longrightarrow> ordered_dict (zip h cs) = zip h cs"
  by (rule ordered_dict_distinct) (simp add: map_fst_zip_take)

lemma map_zip_map:
  "map (\<lambda>(a, b). F a b) (zip xs (map f xs)) = map (\<lambda>a. F a (f a)) xs"
  by (induction xs) simp_all

text \<open>
  Claim C6, as the code has it. For a table with distinct headers the export is an
  element named \<open>DataTable\<close> with one \<open>row\<close> child per row of the table, in order; a
  row element has a \<open>tags\<close> attribute, the row's tags joined by commas, exactly when
  the row has tags; and its children are one element per column, named after the header
  and holding the text of the cell.
\<close>

theorem xml_export_structure:
  assumes "headers dset = Some h" "h \<noteq> []" "distinct h"
  shows "XMLFormat_export_set str dset =
         Inr (
           (Element ''DataTable'' [] None
              (map (\<lambda>r. Element ''row''
                           (if tags r \<noteq> [] then [(''tags'', join '','' (tags r))] else [])
                           None
                           (map (\<lambda>(header, v). Element header [] (Some (str v)) [])
                                (zip h (cells r))))
                   (data dset))))"
  using assms
  by (simp add: XMLFormat_export_set_def dict_def map_zip_map row_node_def ordered_dict_zip)

text \<open>A table of two rows, the first one tagged.\<close>

theorem xml_export_structure_witness:
  "XMLFormat_export_set (\<lambda>s. s)
     \<lparr>title = None, headers = Some [''a'', ''b''],
      data = [\<lparr>cells = [''1'', ''2''], tags = [''t'', ''u'']\<rparr>, \<lparr>cells = [''3'', ''4''], tags = []\<rparr>]\<rparr> =
   Inr (Element ''DataTable'' [] None
          [Element ''row'' [(''tags'', ''t,u'')] None
             [Element ''a'' [] (Some ''1'') [], Element ''b'' [] (Some ''2'') []],
           Element ''row'' [] None
             [Element ''a'' [] (Some ''3'') [], Element ''b'' [] (Some ''4'') []]])"
  using xml_export_structure
    [of "\<lparr>title = None, headers = Some [''a'', ''b''],
         data = [\<lparr>cells = [''1'', ''2''], tags = [''t'', ''u'']\<rparr>, \<lparr>cells = [''3'', ''4''], tags = []\<rparr>]\<rparr>"
        "[''a'', ''b'']" "\<lambda>s. s"]
  by simp

text \<open>
  The root element of an exported table is named \<open>DataTable\<close>, not \<open>Table\<close>.
\<close>

theorem xml_root_is_not_Table:
  "map_sum id root_tag
     (XMLFormat_export_set (\<lambda>s. s)
        \<lparr>title = None, headers = Some [''a''], data = [\<lparr>cells = [''1''], tags = []\<rparr>]\<rparr>) =
   Inr ''DataTable'' \<and>
   map_sum id root_tag
     (XMLFormat_export_set (\<lambda>s. s)
        \<lparr>title = None, headers = Some [''a''], data = [\<lparr>cells = [''1''], tags = []\<rparr>]\<rparr>) \<noteq>
   Inr ''Table''"
  by (simp add: XMLFormat_export_set_def dict_def root_tag_def)

text \<open>A table with rows and no headers is not exported: the loop raises.\<close>

lemma xml_export_without_headers:
  "XMLFormat_export_set str \<lparr>title = None, headers = None, data = [\<lparr>cells = [x], tags = []\<rparr>]\<rparr> =
   Inl AttributeError"
  by (simp add: XMLFormat_export_set_def dict_def)

subsection \<open>Format detection\<close>

text \<open>
  What does hold: the CSV detection returns a boolean whatever the sniffer does; the JSON
  detection answers false when the parser raises a \<^verbatim>\<open>TypeError\<close> or a
  \<^verbatim>\<open>ValueError\<close>; the YAML detection answers false on the parser's, the reader's and
  the scanner's errors.
\<close>

lemma csv_detect_never_raises:
  "CSVFormat_detect sniff stream delimiter = Inr True \<or>
   CSVFormat_detect sniff stream delimiter = Inr False"
  by (simp add: CSVFormat_detect_def split: sum.splits)

lemma json_detect_caught:
  "json_load stream = Inl e \<Longrightarrow> is_TypeError e \<or> is_ValueError e \<Longrightarrow>
   JSONFormat_detect json_load stream = Inr False"
  by (simp add: JSONFormat_detect_def)

lemma yaml_detect_caught:
  "safe_load stream = Inl e \<Longrightarrow> e \<in> {yaml_ParserError, yaml_ReaderError, yaml_ScannerError} \<Longrightarrow>
   YAMLFormat_detect safe_load stream = Inr False"
  by (auto simp add: YAMLFormat_detect_def)

text \<open>
  Claim C4 does not hold of the code. \<^verbatim>\<open>YAMLFormat.detect\<close> lets through what the
  YAML loader raises beside the three classes it names: a \<^verbatim>\<open>ComposerError\<close> (an
  alias that is not defined, as in the stream \<^verbatim>\<open>*a\<close>) or a \<^verbatim>\<open>ConstructorError\<close>
  (a tag the safe loader does not know). \<^verbatim>\<open>JSONFormat.detect\<close> lets through a
  \<^verbatim>\<open>RecursionError\<close>, which the JSON parser raises on a deeply nested document.
  The loaders below raise these exceptions on these streams.
\<close>

theorem detect_lets_exceptions_through:
  "YAMLFormat_detect (\<lambda>s. if s = ''*a'' then Inl yaml_ComposerError else Inr (VList [])) ''*a'' =
     Inl yaml_ComposerError \<and>
   YAMLFormat_detect (\<lambda>s. if s = ''!t x'' then Inl yaml_ConstructorError else Inr (VList [])) ''!t x'' =
     Inl yaml_ConstructorError \<and>
   JSONFormat_detect (\<lambda>s. if s = replicate 100000 CHR ''['' then Inl RecursionError else Inr (VList []))
     (replicate 100000 CHR ''['') = Inl RecursionError"
  by (simp add: YAMLFormat_detect_def JSONFormat_detect_def)

section \<open>Properties of the tables over the ORM\<close>

subsection \<open>Looking up a row that is not there\<close>






subsection \<open>Export with a format that is not registered\<close>

lemma Table_all_rows: "Table_all t = Inr (rows t)"
  by (simp add: Table_all_def Table_find_def bind_kwargs_def apply_where_def)

text \<open>
  Claim C5, as the code has it. Exporting with a format name that is not registered
  fails with a \<^verbatim>\<open>ValueError\<close> before anything is opened or written, and the DataSet
  with its tables is as before. When exactly one of file name and file object is given,
  the message is the one that names the format and the known formats. The same holds for
  \<^verbatim>\<open>Table.freeze\<close> on a table of the DataSet.
\<close>

theorem freeze_unsupported_format:
  assumes "fmt \<notin> set (map fst (export_formats ds))"
  shows "(\<exists>msg. DataSet_freeze ds query fmt filename file_obj = (Inl (ValueError msg), ds)) \<and>
         (has_filename filename \<noteq> has_file_obj file_obj \<longrightarrow>
            DataSet_freeze ds query fmt filename file_obj =
              (Inl (ValueError (unsupported_format_message fmt (map fst (export_formats ds)))), ds)) \<and>
         (table_name \<in> set (map fst (models ds)) \<longrightarrow>
            (\<exists>msg. Table_freeze ds table_name fmt filename file_obj = (Inl (ValueError msg), ds)))"
proof -
  have 1: "\<exists>msg. DataSet_freeze ds q fmt filename file_obj = (Inl (ValueError msg), ds)" for q
    using assms by (simp add: DataSet_freeze_def check_arguments_def)
  have 2: "has_filename filename \<noteq> has_file_obj file_obj \<longrightarrow>
            DataSet_freeze ds query fmt filename file_obj =
              (Inl (ValueError (unsupported_format_message fmt (map fst (export_formats ds)))), ds)"
    using assms by (auto simp add: DataSet_freeze_def check_arguments_def)
  have 3: "table_name \<in> set (map fst (models ds)) \<longrightarrow>
            (\<exists>msg. Table_freeze ds table_name fmt filename file_obj = (Inl (ValueError msg), ds))"
  proof
    assume "table_name \<in> set (map fst (models ds))"
    then obtain t where "map_of (models ds) table_name = Some t"
      by (metis map_of_eq_None_iff not_Some_eq set_map)
    then show "\<exists>msg. Table_freeze ds table_name fmt filename file_obj = (Inl (ValueError msg), ds)"
      using 1[of "rows t"] by (simp add: Table_freeze_def Table_all_rows)
  qed
  from 1 2 3 show ?thesis by blast
qed

text \<open>Exporting the users as \<open>docx\<close>.\<close>

theorem freeze_unsupported_format_witness:
  "DataSet_freeze users_db (rows users) ''docx'' (Some ''users.docx'') (None :: unit option) =
     (Inl (ValueError (''Unsupported format '' @ [CHR 0x22] @ ''docx'' @ [CHR 0x22] @
                       ''. Use one of csv, json, tsv.'')), users_db) \<and>
   snd (Table_freeze users_db ''users'' ''docx'' (Some ''users.docx'') (None :: unit option)) = users_db"
  using freeze_unsupported_format
    [of "''docx''" users_db "rows users" "Some ''users.docx''" "None :: unit option" "''users''"]
  by (auto simp add: users_db_def get_export_formats_def has_filename_def has_file_obj_def
      unsupported_format_message_def)

text \<open>
  The exception raised for the format \<open>docx\<close> is a \<^verbatim>\<open>ValueError\<close>, not
  \<open>UnsupportedFormat\<close>.
\<close>

theorem freeze_raises_ValueError:
  "fst (DataSet_freeze users_db (rows users) ''docx'' (Some ''users.docx'') (None :: unit option)) =
     Inl (ValueError (''Unsupported format '' @ [CHR 0x22] @ ''docx'' @ [CHR 0x22] @
                      ''. Use one of csv, json, tsv.'')) \<and>
   fst (DataSet_freeze users_db (rows users) ''docx'' (Some ''users.docx'') (None :: unit option)) \<noteq>
     Inl UnsupportedFormat"
  by (simp add: DataSet_freeze_def check_arguments_def users_db_def get_export_formats_def
      has_filename_def has_file_obj_def unsupported_format_message_def)

subsection \<open>Insertion extends the schema\<close>

lemma add_columns_columns: "columns (add_columns t d ks) = columns t @ ks"
  by (induction ks arbitrary: t) (simp_all add: columns_def add_column_def)

lemma add_columns_rows:
  "rows (add_columns t d ks) = map (\<lambda>r. r @ map (\<lambda>k. (k, VNone)) ks) (rows t)"
  by (induction ks arbitrary: t) (simp_all add: add_column_def)

lemma add_columns_primary_key: "primary_key (add_columns t d ks) = primary_key t"
  by (induction ks arbitrary: t) (simp_all add: add_column_def)

lemma new_keys_distinct: "distinct (new_keys t d)"
  by (simp add: new_keys_def)

lemma new_keys_set: "set (new_keys t d) = set (map fst d) - set (columns t)"
  by (auto simp: new_keys_def columns_def)

lemma migrate_columns: "columns (migrate_new_columns t d) = columns t @ new_keys t d"
  by (simp add: migrate_new_columns_def add_columns_columns)

lemma migrate_rows:
  "rows (migrate_new_columns t d) = map (\<lambda>r. r @ map (\<lambda>k. (k, VNone)) (new_keys t d)) (rows t)"
  by (simp add: migrate_new_columns_def add_columns_rows)

lemma migrate_primary_key: "primary_key (migrate_new_columns t d) = primary_key t"
  by (simp add: migrate_new_columns_def add_columns_primary_key)

lemma convert_all_keys: "convert_all ad t d = Inr d' \<Longrightarrow> map fst d' = map fst d"
  by (induction d arbitrary: d') (auto split: option.splits sum.splits)

lemma key_in_keys: "(k, v) \<in> set kvs \<Longrightarrow> k \<in> fst ` set kvs"
  by force

lemma model_insert_result:
  "(\<exists>e. model_insert ad t d = (Inl e, t)) \<or>
   (\<exists>key converted.
      convert_all ad t d = Inr converted \<and>
      model_insert ad t d =
        (Inr key,
         t\<lparr>rows := rows t @
            [map (\<lambda>(c, ft). (c, if c = primary_key t then key
                                 else (case map_of converted c of Some v \<Rightarrow> v | None \<Rightarrow> VNone)))
                 (model_fields t)]\<rparr>))"
proof (cases "convert_all ad t d")
  case (Inl e)
  then show ?thesis by (simp add: model_insert_def)
next
  case (Inr converted)
  define key where "key = (case map_of converted (primary_key t) of
                             Some v \<Rightarrow> (if v = VNone then next_key t else v)
                           | None \<Rightarrow> next_key t)"
  show ?thesis
  proof (cases "key \<in> set (map (\<lambda>r. case map_of r (primary_key t) of Some v \<Rightarrow> v | None \<Rightarrow> VNone)
                              (rows t))")
    case True
    have "model_insert ad t d = (Inl IntegrityError, t)"
      using Inr True unfolding key_def by (simp add: model_insert_def Let_def)
    then show ?thesis by blast
  next
    case False
    have "model_insert ad t d =
        (Inr key,
         t\<lparr>rows := rows t @
            [map (\<lambda>(c, ft). (c, if c = primary_key t then key
                                 else (case map_of converted c of Some v \<Rightarrow> v | None \<Rightarrow> VNone)))
                 (model_fields t)]\<rparr>)"
      using Inr False unfolding key_def by (simp add: model_insert_def Let_def)
    with Inr show ?thesis by blast
  qed
qed

lemma model_insert_cases:
  obtains (refused) e where "model_insert ad t d = (Inl e, t)"
  | (stored) key converted where
      "convert_all ad t d = Inr converted"
      "model_insert ad t d =
         (Inr key,
          t\<lparr>rows := rows t @
             [map (\<lambda>(c, ft). (c, if c = primary_key t then key
                                  else (case map_of converted c of Some v \<Rightarrow> v | None \<Rightarrow> VNone)))
                  (model_fields t)]\<rparr>)"
  using model_insert_result[of ad t d] by blast

lemma model_insert_columns: "columns (snd (model_insert ad t d)) = columns t"
  by (cases rule: model_insert_cases[of ad t d]) (simp_all add: columns_def)

lemma map_fst_stored_row:
  "map fst (map (\<lambda>(c, ft). (c, f c)) fs) = map fst fs"
  by (induction fs) auto

lemma model_insert_keys:
  assumes "\<forall>r\<in>set (rows t). set (map fst r) \<subseteq> set (columns t)"
  shows "\<forall>r\<in>set (rows (snd (model_insert ad t d))). set (map fst r) \<subseteq> set (columns t)"
proof (cases rule: model_insert_cases[of ad t d])
  case (refused e)
  with assms show ?thesis by simp
next
  case (stored key converted)
  with assms show ?thesis by (auto simp: columns_def intro: key_in_keys)
qed

lemma model_insert_old_rows:
  "i < length (rows t) \<Longrightarrow> rows (snd (model_insert ad t d)) ! i = rows t ! i"
  by (cases rule: model_insert_cases[of ad t d]) (simp_all add: nth_append)

lemma map_of_stored_row:
  "c \<in> set (map fst fs) \<Longrightarrow> map_of (map (\<lambda>(c, ft). (c, f c)) fs) c = Some (f c)"
  by (induction fs) auto

lemma model_insert_new_row:
  assumes "fst (model_insert ad t d) = Inr key"
  shows "length (rows (snd (model_insert ad t d))) = Suc (length (rows t)) \<and>
         (\<forall>c\<in>set (columns t) - set (map fst d) - {primary_key t}.
            map_of (last (rows (snd (model_insert ad t d)))) c = Some VNone)"
proof (cases rule: model_insert_cases[of ad t d])
  case (refused e)
  with assms show ?thesis by simp
next
  case (stored key' converted)
  have "map_of converted c = None" if "c \<notin> set (map fst d)" for c
    using that convert_all_keys[OF stored(1)] by (metis map_of_eq_None_iff set_map)
  with stored(2) show ?thesis
    by (auto simp: columns_def map_of_stored_row)
qed

lemma map_of_append_null:
  "k \<notin> set (map fst r) \<Longrightarrow> k \<in> set ks \<Longrightarrow>
   map_of (r @ map (\<lambda>k. (k, VNone)) ks) k = Some VNone"
  by (induction r) (auto simp: map_of_map_restrict)


lemma distinct_count_one: "distinct xs \<Longrightarrow> x \<in> set xs \<Longrightarrow> count_list xs x = 1"
  by (induction xs) auto

lemma Table_insert_bound:
  "''self'' \<notin> set (map fst d) \<Longrightarrow>
   Table_insert ad t d = model_insert ad (migrate_new_columns t d) d"
  by (simp add: Table_insert_def bind_kwargs_def)


lemma migrate_keys:
  assumes "\<forall>r\<in>set (rows t). set (map fst r) \<subseteq> set (columns t)"
  shows "\<forall>r\<in>set (rows (migrate_new_columns t d)).
           set (map fst r) \<subseteq> set (columns (migrate_new_columns t d))"
  using assms by (auto simp: migrate_rows migrate_columns)

lemma migrate_distinct:
  "distinct (columns t) \<Longrightarrow> distinct (columns (migrate_new_columns t d))"
  by (auto simp: migrate_columns new_keys_distinct new_keys_set)

text \<open>
  Claim C3. Let the declared columns of a table be distinct and the keys of every row
  be among them. After \<^verbatim>\<open>Table.insert\<close> of a row, whether the ORM stored it or
  refused it: the declared columns are still distinct and are the old ones together with
  the keys of the row, so every key of the row is declared exactly once; the keys of
  every row are among the declared columns; every row that was there before shows null
  for each column that is new; and the row that was stored shows null for every column
  it gave no value for, the primary key apart.
\<close>

theorem insert_extends_schema:
  assumes "distinct (columns t)"
    and "\<forall>r\<in>set (rows t). set (map fst r) \<subseteq> set (columns t)"
    and "''self'' \<notin> set (map fst d)"
  shows "distinct (columns (snd (Table_insert ad t d))) \<and>
         set (columns (snd (Table_insert ad t d))) = set (columns t) \<union> set (map fst d) \<and>
         (\<forall>k\<in>set (map fst d). count_list (columns (snd (Table_insert ad t d))) k = 1) \<and>
         (\<forall>r\<in>set (rows (snd (Table_insert ad t d))).
            set (map fst r) \<subseteq> set (columns (snd (Table_insert ad t d)))) \<and>
         (\<forall>k\<in>set (map fst d) - set (columns t). \<forall>i<length (rows t).
            map_of (rows (snd (Table_insert ad t d)) ! i) k = Some VNone) \<and>
         (\<forall>key. fst (Table_insert ad t d) = Inr key \<longrightarrow>
            length (rows (snd (Table_insert ad t d))) = Suc (length (rows t)) \<and>
            (\<forall>c\<in>set (columns (snd (Table_insert ad t d))) - set (map fst d) - {primary_key t}.
               map_of (last (rows (snd (Table_insert ad t d)))) c = Some VNone))"
proof -
  let ?m = "migrate_new_columns t d"
  let ?t' = "snd (Table_insert ad t d)"
  have ins: "Table_insert ad t d = model_insert ad ?m d"
    using assms(3) by (rule Table_insert_bound)
  have cols: "columns ?t' = columns t @ new_keys t d"
    by (simp add: ins model_insert_columns migrate_columns)
  have dist: "distinct (columns ?t')"
    using assms(1) by (simp add: ins model_insert_columns migrate_distinct)
  have colset: "set (columns ?t') = set (columns t) \<union> set (map fst d)"
    by (auto simp: cols new_keys_set)
  have once: "\<forall>k\<in>set (map fst d). count_list (columns ?t') k = 1"
    using dist colset by (simp add: distinct_count_one)
  have keys: "\<forall>r\<in>set (rows ?t'). set (map fst r) \<subseteq> set (columns ?t')"
    using model_insert_keys[OF migrate_keys[OF assms(2)], of ad d d]
    by (simp add: ins model_insert_columns)
  have old: "\<forall>k\<in>set (map fst d) - set (columns t). \<forall>i<length (rows t).
               map_of (rows ?t' ! i) k = Some VNone"
  proof (intro ballI allI impI)
    fix k i
    assume k: "k \<in> set (map fst d) - set (columns t)" and i: "i < length (rows t)"
    from i have "rows ?t' ! i = rows ?m ! i"
      by (simp add: ins model_insert_old_rows migrate_rows)
    also from i have "\<dots> = rows t ! i @ map (\<lambda>k. (k, VNone)) (new_keys t d)"
      by (simp add: migrate_rows)
    finally have row: "rows ?t' ! i = rows t ! i @ map (\<lambda>k. (k, VNone)) (new_keys t d)" .
    from i assms(2) have "set (map fst (rows t ! i)) \<subseteq> set (columns t)" by simp
    with k have "k \<notin> set (map fst (rows t ! i))" by auto
    moreover from k have "k \<in> set (new_keys t d)" by (simp add: new_keys_set)
    ultimately have "map_of (rows t ! i @ map (\<lambda>k. (k, VNone)) (new_keys t d)) k = Some VNone"
      by (rule map_of_append_null)
    then show "map_of (rows ?t' ! i) k = Some VNone"
      by (simp only: row)
  qed
  have new: "\<forall>key. fst (Table_insert ad t d) = Inr key \<longrightarrow>
            length (rows ?t') = Suc (length (rows t)) \<and>
            (\<forall>c\<in>set (columns ?t') - set (map fst d) - {primary_key t}.
               map_of (last (rows ?t')) c = Some VNone)"
  proof (intro allI impI)
    fix key
    assume "fst (Table_insert ad t d) = Inr key"
    then have "fst (model_insert ad ?m d) = Inr key" by (simp add: ins)
    from model_insert_new_row[OF this]
    show "length (rows ?t') = Suc (length (rows t)) \<and>
            (\<forall>c\<in>set (columns ?t') - set (map fst d) - {primary_key t}.
               map_of (last (rows ?t')) c = Some VNone)"
      by (simp add: ins model_insert_columns migrate_rows migrate_primary_key)
  qed
  from dist colset once keys old new show ?thesis by blast
qed

text \<open>Inserting Mickey, aged 5, into the users: \<open>age\<close> is a new column.\<close>

theorem insert_extends_schema_witness:
  "Table_insert plain_orm users [(''name'', VStr ''Mickey''), (''age'', VInt 5)] =
     (Inr (VInt 2),
      \<lparr>name = ''users'',
       model_fields = [(''id'', AutoField), (''name'', TextField), (''age'', IntegerField)],
       primary_key = ''id'',
       rows = [[(''id'', VInt 1), (''name'', VStr ''Jeff''), (''age'', VNone)],
               [(''id'', VInt 2), (''name'', VStr ''Mickey''), (''age'', VInt 5)]]\<rparr>) \<and>
   count_list (columns (snd (Table_insert plain_orm users
     [(''name'', VStr ''Mickey''), (''age'', VInt 5)]))) ''age'' = 1"
  using insert_extends_schema
    [of users "[(''name'', VStr ''Mickey''), (''age'', VInt 5)]" plain_orm]
  by (simp add: users_def columns_def plain_orm_def Table_insert_def bind_kwargs_def
      migrate_new_columns_def new_keys_def add_column_def model_insert_def next_key_def
      Let_def)

subsection \<open>Strict and plain import\<close>

























subsection \<open>CSV import is a function of the input and the table\<close>













end
